theory Spec2Isabelle
  imports Complex_Main
begin

section \<open>Common data model\<close>

text \<open>
  Exceptions of the Python source become values: every function that can raise returns
  \<open>error + 'a\<close>, with \<open>Inl\<close> carrying the exception class.
\<close>

datatype error =
    AssertionError | TypeError | RuntimeError | IndexError | AttributeError | ZeroDivisionError

text \<open>
  What a loss method hands back to its caller: Python's \<open>None\<close> (a body that ends
  without \<open>return\<close>) or a zero-dimensional tensor, read as a real number.
\<close>

datatype py_value = NoneValue | Scalar real

definition err_bind :: "error + 'a \<Rightarrow> ('a \<Rightarrow> error + 'b) \<Rightarrow> error + 'b" where
  "err_bind m f = (case m of Inl e \<Rightarrow> Inl e | Inr x \<Rightarrow> f x)"

section \<open>GCL/eval/eval.py: get_split\<close>

text \<open>
  \<open>int(x)\<close> on a Python float truncates towards zero.
\<close>

definition py_int :: "real \<Rightarrow> int" where
  "py_int x = (if 0 \<le> x then \<lfloor>x\<rfloor> else \<lceil>x\<rceil>)"

text \<open>
  Slice bounds: a negative bound counts from the end, and every bound is clipped to the
  length of the sequence.
\<close>

definition slice_bound :: "nat \<Rightarrow> int \<Rightarrow> nat" where
  "slice_bound n i = (if i < 0 then nat (max 0 (int n + i)) else min n (nat i))"

definition slice_to :: "'a list \<Rightarrow> int \<Rightarrow> 'a list" where
  "slice_to xs hi = take (slice_bound (length xs) hi) xs"

definition slice_between :: "'a list \<Rightarrow> int \<Rightarrow> int \<Rightarrow> 'a list" where
  "slice_between xs lo hi =
     drop (slice_bound (length xs) lo) (take (slice_bound (length xs) hi) xs)"

definition slice_from :: "'a list \<Rightarrow> int \<Rightarrow> 'a list" where
  "slice_from xs lo = drop (slice_bound (length xs) lo) xs"

text \<open>
  \<open>torch.randperm(n)\<close> draws a permutation of \<open>0..n-1\<close> and raises for a negative
  \<open>n\<close>. The random source is a parameter: \<open>draws i\<close> is the permutation that the
  \<open>i\<close>-th iteration of the loop receives.
\<close>

definition randperm :: "(nat \<Rightarrow> nat list) \<Rightarrow> nat \<Rightarrow> int \<Rightarrow> error + nat list" where
  "randperm draws i n = (if n < 0 then Inl RuntimeError else Inr (draws i))"

type_synonym split_dict = "(string \<times> nat list) list"

datatype split_result = Single split_dict | Many "split_dict list"

fun get_split_loop ::
  "(nat \<Rightarrow> nat list) \<Rightarrow> int \<Rightarrow> int \<Rightarrow> int \<Rightarrow> nat list \<Rightarrow> error + split_dict list" where
  "get_split_loop draws num_samples train_size test_size [] = Inr []"
| "get_split_loop draws num_samples train_size test_size (i # is) =
     (case randperm draws i num_samples of
        Inl e \<Rightarrow> Inl e
      | Inr indices \<Rightarrow>
          (case get_split_loop draws num_samples train_size test_size is of
             Inl e \<Rightarrow> Inl e
           | Inr out \<Rightarrow>
               Inr ([(''train'', slice_to indices train_size),
                     (''valid'', slice_between indices train_size (test_size + train_size)),
                     (''test'', slice_from indices (test_size + train_size))] # out)))"

definition get_split ::
  "(nat \<Rightarrow> nat list) \<Rightarrow> int \<Rightarrow> int \<Rightarrow> real \<Rightarrow> real \<Rightarrow> error + split_result" where
  "get_split draws num_samples num_splits train_ratio test_ratio =
     (if \<not> (train_ratio + test_ratio < 1) then Inl AssertionError
      else
        let train_size = py_int (of_int num_samples * train_ratio);
            test_size = py_int (of_int num_samples * test_ratio)
        in case get_split_loop draws num_samples train_size test_size [0..<nat num_splits] of
             Inl e \<Rightarrow> Inl e
           | Inr out \<Rightarrow>
               if num_splits > 1 then Inr (Many out)
               else (case out of [] \<Rightarrow> Inl IndexError | d # _ \<Rightarrow> Inr (Single d)))"

section \<open>GCL/eval/eval.py and GCL/eval/svm.py: the scikit-learn evaluators\<close>

text \<open>
  The constructors only move their arguments around, so an argument is an opaque Python
  object; what matters is whether it is \<open>None\<close>, truthy, callable.
\<close>

datatype py_obj =
    PyNone
  | PyBool bool
  | PyCallable string
  | PyList "py_obj list"
  | PyObject string

fun truthy :: "py_obj \<Rightarrow> bool" where
  "truthy PyNone = False"
| "truthy (PyBool b) = b"
| "truthy (PyList xs) = (xs \<noteq> [])"
| "truthy _ = True"

fun callable :: "py_obj \<Rightarrow> bool" where
  "callable (PyCallable _) = True"
| "callable _ = False"

text \<open>
  A call that passes every argument by keyword to a function without a \<open>**kwargs\<close>
  parameter. Python raises \<open>TypeError\<close> when a keyword names no parameter, and when a
  parameter without default receives nothing; otherwise each parameter is bound to the
  keyword's value or to its default.
\<close>

type_synonym py_kwargs = "(string \<times> py_obj) list"

definition bind_keywords ::
  "string list \<Rightarrow> (string \<times> py_obj) list \<Rightarrow> py_kwargs \<Rightarrow> error + (string \<Rightarrow> py_obj)" where
  "bind_keywords required defaults kwargs =
     (if filter (\<lambda>k. k \<notin> set required \<and> k \<notin> set (map fst defaults)) (map fst kwargs) \<noteq> []
      then Inl TypeError
      else if filter (\<lambda>p. p \<notin> set (map fst kwargs)) required \<noteq> []
      then Inl TypeError
      else Inr (\<lambda>p. case map_of kwargs p of
                       Some v \<Rightarrow> v
                     | None \<Rightarrow> (case map_of defaults p of Some v \<Rightarrow> v | None \<Rightarrow> PyNone)))"

text \<open>
  \<open>BaseSKLearnEvaluator.__init__(self, evaluator, metric, split, param_grid=None,
  search_cv=None, refit=None)\<close>; the result is the attribute dictionary of the new object.
\<close>

definition BaseSKLearnEvaluator_init :: "py_kwargs \<Rightarrow> error + (string \<times> py_obj) list" where
  "BaseSKLearnEvaluator_init kwargs =
     (case bind_keywords [''evaluator'', ''metric'', ''split'']
             [(''param_grid'', PyNone), (''search_cv'', PyNone), (''refit'', PyNone)] kwargs of
        Inl e \<Rightarrow> Inl e
      | Inr arg \<Rightarrow>
          Inr [(''evaluator'', arg ''evaluator''),
               (''param_grid'', arg ''param_grid''),
               (''split'', arg ''split''),
               (''search_cv'', arg ''search_cv''),
               (''refit'', arg ''refit''),
               (''metric'', if callable (arg ''metric'') then PyList [arg ''metric'']
                            else arg ''metric'')])"

text \<open>
  \<open>SVMEvaluator.__init__(self, metrics, split, linear=True, params=None, param_grid=None,
  grid_search_scoring=None, grid_search_params=None)\<close>: it picks the classifier and hands
  seven keywords to the superclass constructor.
\<close>

definition SVMEvaluator_init ::
  "py_obj \<Rightarrow> py_obj \<Rightarrow> py_obj \<Rightarrow> py_obj \<Rightarrow> py_obj \<Rightarrow> py_obj \<Rightarrow> py_obj
     \<Rightarrow> error + (string \<times> py_obj) list" where
  "SVMEvaluator_init metrics split linear' params param_grid grid_search_scoring
       grid_search_params =
     (let evaluator = (if truthy linear' then PyObject ''LinearSVC'' else PyObject ''SVC'')
      in BaseSKLearnEvaluator_init
           [(''evaluator'', evaluator), (''metrics'', metrics), (''split'', split),
            (''params'', params), (''param_grid'', param_grid),
            (''grid_search_scoring'', grid_search_scoring),
            (''grid_search_params'', grid_search_params)])"

section \<open>Tensors\<close>

text \<open>
  Embeddings and masks are two-dimensional float tensors. A tensor is the list of its rows
  and its entries are real numbers: the embedding is in exact real arithmetic, not in
  floating point, so it has no \<open>inf\<close> and no \<open>nan\<close>, and the theorems below carry the
  hypotheses (a positive temperature, a non-zero count in every divisor) under which the
  program divides by no zero and takes no logarithm of zero. The list of rows does not
  record the number of columns of a tensor without rows; every tensor of the theorems has
  at least one row.
\<close>

type_synonym vec = "real list"
type_synonym mat = "real list list"

definition ncols :: "mat \<Rightarrow> nat" where
  "ncols A = (case A of [] \<Rightarrow> 0 | r # _ \<Rightarrow> length r)"

definition is_matrix :: "nat \<Rightarrow> nat \<Rightarrow> mat \<Rightarrow> bool" where
  "is_matrix n m A = (length A = n \<and> list_all (\<lambda>r. length r = m) A)"

text \<open>
  Elementwise operations broadcast as torch does: two sizes along a dimension are
  compatible when they are equal or one of them is 1, and the operand of size 1 is
  repeated; incompatible sizes raise \<open>RuntimeError\<close>.
\<close>

definition stretch :: "nat \<Rightarrow> 'a list \<Rightarrow> 'a list" where
  "stretch n xs = (if length xs = n then xs else replicate n (hd xs))"

definition compatible :: "nat \<Rightarrow> nat \<Rightarrow> bool" where
  "compatible a b = (a = b \<or> a = 1 \<or> b = 1)"

definition broadcast_size :: "nat \<Rightarrow> nat \<Rightarrow> nat" where
  "broadcast_size a b = (if a = 1 then b else a)"

definition vec_op :: "(real \<Rightarrow> real \<Rightarrow> real) \<Rightarrow> vec \<Rightarrow> vec \<Rightarrow> error + vec" where
  "vec_op f u v =
     (if compatible (length u) (length v)
      then let n = broadcast_size (length u) (length v)
           in Inr (map2 f (stretch n u) (stretch n v))
      else Inl RuntimeError)"

definition mat_op :: "(real \<Rightarrow> real \<Rightarrow> real) \<Rightarrow> mat \<Rightarrow> mat \<Rightarrow> error + mat" where
  "mat_op f A B =
     (if compatible (length A) (length B) \<and> compatible (ncols A) (ncols B)
      then let n = broadcast_size (length A) (length B);
               m = broadcast_size (ncols A) (ncols B)
           in Inr (map2 (\<lambda>a b. map2 f (stretch m a) (stretch m b)) (stretch n A) (stretch n B))
      else Inl RuntimeError)"

definition mat_map :: "(real \<Rightarrow> real) \<Rightarrow> mat \<Rightarrow> mat" where
  "mat_map f A = map (map f) A"

text \<open>\<open>A.sum(dim=1)\<close>, \<open>A.sum(dim=1, keepdim=True)\<close>, \<open>A.sum()\<close>, \<open>v.mean()\<close>, \<open>A.diag()\<close>.\<close>

definition sum_dim1 :: "mat \<Rightarrow> vec" where
  "sum_dim1 A = map sum_list A"


definition sum_all :: "mat \<Rightarrow> real" where
  "sum_all A = sum_list (map sum_list A)"

definition mean :: "vec \<Rightarrow> real" where
  "mean v = sum_list v / real (length v)"

definition diag :: "mat \<Rightarrow> vec" where
  "diag A = map (\<lambda>i. A ! i ! i) [0..<min (length A) (ncols A)]"

text \<open>
  \<open>v.sum(dim=1, keepdim=True)\<close> on a one-dimensional tensor \<open>v\<close>: the tensor has no
  dimension 1 and torch raises \<open>IndexError\<close> (dimension out of range), whatever \<open>v\<close> holds.
\<close>

definition vec_sum_dim1_keepdim :: "vec \<Rightarrow> error + mat" where
  "vec_sum_dim1_keepdim v = Inl IndexError"

text \<open>\<open>M.int()\<close> truncates every entry towards zero.\<close>

definition mat_int :: "mat \<Rightarrow> mat" where
  "mat_int A = mat_map (\<lambda>x. real_of_int (py_int x)) A"

text \<open>
  \<open>F.normalize(h)\<close> with its defaults (\<open>p=2\<close>, \<open>dim=1\<close>, \<open>eps=1e-12\<close>) divides every
  row by the larger of its Euclidean norm and \<open>eps\<close>.
\<close>

definition normalize_row :: "vec \<Rightarrow> vec" where
  "normalize_row v =
     map (\<lambda>x. x / max (sqrt (sum_list (map (\<lambda>y. y * y) v))) (1 / 10 ^ 12)) v"

definition normalize :: "mat \<Rightarrow> mat" where
  "normalize h = map normalize_row h"

text \<open>
  \<open>h1 @ h2.t()\<close>: entry \<open>(i, j)\<close> is the dot product of row \<open>i\<close> of \<open>h1\<close> and row \<open>j\<close>
  of \<open>h2\<close>; rows of different lengths raise \<open>RuntimeError\<close>.
\<close>

definition dot :: "vec \<Rightarrow> vec \<Rightarrow> real" where
  "dot u v = sum_list (map2 (*) u v)"

definition matmul_t :: "mat \<Rightarrow> mat \<Rightarrow> error + mat" where
  "matmul_t h1 h2 =
     (if h1 \<noteq> [] \<and> h2 \<noteq> [] \<and> ncols h1 \<noteq> ncols h2 then Inl RuntimeError
      else Inr (map (\<lambda>a. map (dot a) h2) h1))"

section \<open>GCL/models/sampler.py: ContrastInstance\<close>

text \<open>
  Modelled from the spec: the class \<open>ContrastInstance\<close> (its file is not among the
  source files). It carries an anchor matrix of shape \<open>[n_a, d]\<close>, a sample matrix of
  shape \<open>[n_s, d]\<close> and two optional masks of shape \<open>[n_a, n_s]\<close>; \<open>unpack\<close> returns
  the four fields in this order.
\<close>

record ContrastInstance =
  anchor :: mat
  sample :: mat
  pos_mask :: "mat option"
  neg_mask :: "mat option"

definition unpack :: "ContrastInstance \<Rightarrow> mat \<times> mat \<times> mat option \<times> mat option" where
  "unpack ci = (anchor ci, sample ci, pos_mask ci, neg_mask ci)"

section \<open>GCL/losses/infonce.py\<close>

definition similarity :: "mat \<Rightarrow> mat \<Rightarrow> error + mat" where
  "similarity h1 h2 = matmul_t (normalize h1) (normalize h2)"

text \<open>
  \<open>InfoNCE.compute\<close>. With a mask that is \<open>None\<close>, \<open>pos_mask + neg_mask\<close> raises
  \<open>TypeError\<close>. \<open>InfoNCE_reduce\<close> is the end of the method, lines 29 to 32, from the
  row sums \<open>exp_sim.sum(dim=1, keepdim=True)\<close> on: the logarithm of the row sum is
  subtracted from every entry of the row, the result is masked and averaged over the
  positives of each row, and the negated mean over the rows is returned.
\<close>

definition InfoNCE_reduce :: "mat \<Rightarrow> mat \<Rightarrow> mat \<Rightarrow> error + py_value" where
  "InfoNCE_reduce sim row_sums pos_mask' =
     err_bind (mat_op (-) sim (mat_map ln row_sums)) (\<lambda>log_prob.
     err_bind (mat_op (*) log_prob pos_mask') (\<lambda>loss.
     err_bind (vec_op (/) (sum_dim1 loss) (sum_dim1 pos_mask')) (\<lambda>loss.
     Inr (Scalar (- mean loss)))))"


definition InfoNCE_compute_default_positive ::
  "real \<Rightarrow> ContrastInstance \<Rightarrow> error + py_value" where
  "InfoNCE_compute_default_positive tau contrast_instance =
     err_bind (similarity (anchor contrast_instance) (sample contrast_instance)) (\<lambda>s.
     let sim = mat_map exp (mat_map (\<lambda>x. x / tau) s);
         pos = diag sim
     in err_bind (vec_op (-) (sum_dim1 sim) (diag sim)) (\<lambda>neg.
        err_bind (vec_op (+) pos neg) (\<lambda>pos_neg.
        err_bind (vec_op (/) pos pos_neg) (\<lambda>loss.
        let loss = map (\<lambda>x. - ln x) loss
        in Inr (Scalar (mean loss))))))"

text \<open>
  The method bodies that consist of a comment and \<open>pass\<close>: they end without \<open>return\<close>,
  so the call returns \<open>None\<close>.
\<close>

definition RobustInfoNCE_compute ::
  "real \<Rightarrow> real \<Rightarrow> real \<Rightarrow> real \<Rightarrow> ContrastInstance \<Rightarrow> error + py_value" where
  "RobustInfoNCE_compute tau p q lambda' contrast_instance = Inr NoneValue"

definition DebiasedInfoNCE_compute_default_positive ::
  "real \<Rightarrow> real \<Rightarrow> ContrastInstance \<Rightarrow> error + py_value" where
  "DebiasedInfoNCE_compute_default_positive tau tau_plus contrast_instance = Inr NoneValue"

definition HardnessInfoNCE_compute_default_positive ::
  "real \<Rightarrow> real \<Rightarrow> real \<Rightarrow> ContrastInstance \<Rightarrow> error + py_value" where
  "HardnessInfoNCE_compute_default_positive tau tau_plus beta contrast_instance =
     Inr NoneValue"

text \<open>\<open>ReweightedInfoNCE.compute_default_positive\<close>: a single \<open>raise RuntimeError(...)\<close>.\<close>

definition ReweightedInfoNCE_compute_default_positive ::
  "real \<Rightarrow> ContrastInstance \<Rightarrow> error + py_value" where
  "ReweightedInfoNCE_compute_default_positive tau contrast_instance = Inl RuntimeError"

text \<open>
  \<open>DebiasedInfoNCE.compute\<close>. \<open>neg_mask.int()\<close> on \<open>None\<close> raises \<open>AttributeError\<close>,
  \<open>exp_sim * pos_mask\<close> on \<open>None\<close> raises \<open>TypeError\<close>, and the Python float division
  \<open>-1. / self.tau\<close> raises \<open>ZeroDivisionError\<close> for a zero temperature. \<open>pos\<close> and
  \<open>ng\<close> are one-dimensional (one entry per anchor row), and line 84 sums their sum along
  dimension 1. \<open>DebiasedInfoNCE_reduce\<close> is the end of the method, lines 84 to 87, from
  that sum on; it is the text of lines 29 to 32 of \<open>InfoNCE.compute\<close>, except that the
  mean over the rows is returned as it is.
\<close>

definition DebiasedInfoNCE_reduce :: "mat \<Rightarrow> mat \<Rightarrow> mat \<Rightarrow> error + py_value" where
  "DebiasedInfoNCE_reduce sim row_sums pos_mask' =
     err_bind (mat_op (-) sim (mat_map ln row_sums)) (\<lambda>log_prob.
     err_bind (mat_op (*) log_prob pos_mask') (\<lambda>loss.
     err_bind (vec_op (/) (sum_dim1 loss) (sum_dim1 pos_mask')) (\<lambda>loss.
     Inr (Scalar (mean loss)))))"

definition DebiasedInfoNCE_compute ::
  "real \<Rightarrow> real \<Rightarrow> ContrastInstance \<Rightarrow> error + py_value" where
  "DebiasedInfoNCE_compute tau tau_plus contrast_instance =
     (case unpack contrast_instance of (anchor', sample', pos_mask', neg_mask') \<Rightarrow>
      case neg_mask' of
        None \<Rightarrow> Inl AttributeError
      | Some N \<Rightarrow>
        let num_neg = sum_all (mat_int N) in
        err_bind (similarity anchor' sample') (\<lambda>s.
        let sim = mat_map (\<lambda>x. x / tau) s;
            exp_sim = mat_map exp sim
        in case pos_mask' of
          None \<Rightarrow> Inl TypeError
        | Some P \<Rightarrow>
            err_bind (mat_op (*) exp_sim P) (\<lambda>exp_pos.
            let pos_sum = sum_dim1 exp_pos in
            err_bind (vec_op (/) pos_sum (sum_dim1 (mat_int P))) (\<lambda>pos.
            err_bind (mat_op (*) exp_sim N) (\<lambda>exp_neg.
            let neg_sum = sum_dim1 exp_neg in
            err_bind (vec_op (+) (map (\<lambda>x. - num_neg * tau_plus * x) pos) neg_sum) (\<lambda>ng.
            let ng = map (\<lambda>x. x / (1 - tau_plus)) ng in
            if tau = 0 then Inl ZeroDivisionError
            else
              let ng = map (\<lambda>x. max x (num_neg * exp 1 powr (- 1 / tau))) ng in
              err_bind (vec_op (+) pos ng) (\<lambda>pos_ng.
              err_bind (vec_sum_dim1_keepdim pos_ng) (\<lambda>row_sums.
              DebiasedInfoNCE_reduce sim row_sums P))))))))"

section \<open>GCL/losses/jsd.py\<close>

text \<open>
  \<open>F.softplus(x)\<close> with its defaults (\<open>beta=1\<close>, \<open>threshold=20\<close>): the logarithm of
  \<open>1 + exp x\<close>, replaced by \<open>x\<close> itself above the threshold.
\<close>

definition softplus :: "real \<Rightarrow> real" where
  "softplus x = (if x > 20 then x else ln (1 + exp x))"

text \<open>The default discriminator, \<open>lambda x, y: x @ y.t()\<close>.\<close>

definition dot_discriminator :: "mat \<Rightarrow> mat \<Rightarrow> error + mat" where
  "dot_discriminator x y = matmul_t x y"

definition JSD_compute ::
  "(mat \<Rightarrow> mat \<Rightarrow> error + mat) \<Rightarrow> ContrastInstance \<Rightarrow> error + py_value" where
  "JSD_compute discriminator contrast_instance =
     (case unpack contrast_instance of (anchor', sample', pos_mask', neg_mask') \<Rightarrow>
      case neg_mask' of
        None \<Rightarrow> Inl AttributeError
      | Some N \<Rightarrow>
        (case pos_mask' of
           None \<Rightarrow> Inl AttributeError
         | Some P \<Rightarrow>
           let num_neg = sum_all (mat_int N);
               num_pos = sum_all (mat_int P)
           in err_bind (discriminator anchor' sample') (\<lambda>similarity'.
              err_bind (mat_op (*) (mat_map uminus similarity') P) (\<lambda>neg_sim_pos.
              let E_pos = sum_all (mat_map (\<lambda>x. ln 2 - softplus x) neg_sim_pos);
                  E_pos = E_pos / num_pos
              in err_bind (mat_op (*) similarity' N) (\<lambda>neg_sim.
                 err_bind (mat_op (+) (mat_map (\<lambda>x. softplus (- x)) neg_sim) neg_sim) (\<lambda>t.
                 let E_neg = sum_all (mat_map (\<lambda>x. x - ln 2) t);
                     E_neg = E_neg / num_neg
                 in Inr (Scalar (E_neg - E_pos))))))))"

section \<open>GCL/models/contrast_model.py: DualBranchContrast\<close>

text \<open>
  The sampler classes and the loss base class are defined in files that are not among the
  source files, so the sampler and the loss object are parameters of the model: a sampler maps the keyword arguments \<open>anchor\<close>, \<open>sample\<close>,
  \<open>pos_mask\<close>, \<open>neg_mask\<close>, \<open>extra_pos_mask\<close>, \<open>extra_neg_mask\<close>, \<open>neg_sample\<close>
  and \<open>batch\<close> (in this order; a keyword that a call does not pass is \<open>None\<close>) to a
  \<open>ContrastInstance\<close> or raises, and a loss maps a \<open>ContrastInstance\<close> to a value or
  raises. Both are functions: the same arguments give the same result.
  \<open>default_sampler\<close> is the outcome of \<open>isinstance(self.sampler, DefaultSampler)\<close>.
\<close>

type_synonym sampler_fun =
  "mat \<Rightarrow> mat \<Rightarrow> mat option \<Rightarrow> mat option \<Rightarrow> mat option \<Rightarrow> mat option \<Rightarrow> mat option
     \<Rightarrow> int list option \<Rightarrow> error + ContrastInstance"

record DualBranchContrast =
  loss :: "ContrastInstance \<Rightarrow> error + py_value"
  mode :: string
  sampler :: sampler_fun
  default_sampler :: bool

text \<open>\<open>batch.max()\<close> raises on an empty tensor.\<close>

definition tensor_max :: "int list \<Rightarrow> error + int" where
  "tensor_max b = (case b of [] \<Rightarrow> Inl RuntimeError | x # xs \<Rightarrow> Inr (fold max xs x))"

text \<open>Lines 52 to 88 of \<open>forward\<close>: the sanity check and the two calls of the sampler.\<close>

definition forward_instances ::
  "DualBranchContrast \<Rightarrow> mat option \<Rightarrow> mat option \<Rightarrow> mat option \<Rightarrow> mat option
     \<Rightarrow> int list option \<Rightarrow> mat option \<Rightarrow> mat option \<Rightarrow> mat option \<Rightarrow> mat option
     \<Rightarrow> mat option \<Rightarrow> mat option \<Rightarrow> mat option \<Rightarrow> mat option
     \<Rightarrow> error + ContrastInstance \<times> ContrastInstance" where
  "forward_instances self h1 h2 g1 g2 batch h3 h4 extra_pos_mask extra_neg_mask
       pos_mask1 pos_mask2 neg_mask1 neg_mask2 =
     (if default_sampler self \<and> \<not> (extra_neg_mask = None \<and> extra_pos_mask = None)
      then Inl RuntimeError
      else if mode self = ''L2L'' then
        (case (h1, h2) of
           (Some h1', Some h2') \<Rightarrow>
             err_bind (sampler self h1' h2' pos_mask1 neg_mask1 extra_pos_mask extra_neg_mask
                         None None) (\<lambda>ci1.
             err_bind (sampler self h2' h1' pos_mask2 neg_mask2 extra_pos_mask extra_neg_mask
                         None None) (\<lambda>ci2.
             Inr (ci1, ci2)))
         | _ \<Rightarrow> Inl AssertionError)
      else if mode self = ''G2G'' then
        (case (g1, g2) of
           (Some g1', Some g2') \<Rightarrow>
             err_bind (sampler self g1' g2' pos_mask1 neg_mask1 extra_pos_mask extra_neg_mask
                         None None) (\<lambda>ci1.
             err_bind (sampler self g2' g1' pos_mask2 neg_mask2 extra_pos_mask extra_neg_mask
                         None None) (\<lambda>ci2.
             Inr (ci1, ci2)))
         | _ \<Rightarrow> Inl AssertionError)
      else
        err_bind (case batch of
                    None \<Rightarrow> Inr True
                  | Some b \<Rightarrow> err_bind (tensor_max b) (\<lambda>m. Inr (m + 1 \<le> 1))) (\<lambda>single_graph.
        if single_graph then
          (case (h1, h2, g1, g2, h3, h4) of
             (Some h1', Some h2', Some g1', Some g2', Some h3', Some h4') \<Rightarrow>
               err_bind (sampler self g1' h2' None None extra_pos_mask extra_neg_mask
                           (Some h4') None) (\<lambda>ci1.
               err_bind (sampler self g2' h1' None None extra_pos_mask extra_neg_mask
                           (Some h3') None) (\<lambda>ci2.
               Inr (ci1, ci2)))
           | _ \<Rightarrow> Inl AssertionError)
        else
          (case (h1, h2, g1, g2, batch) of
             (Some h1', Some h2', Some g1', Some g2', Some b) \<Rightarrow>
               err_bind (sampler self g1' h2' None None extra_pos_mask extra_neg_mask
                           None (Some b)) (\<lambda>ci1.
               err_bind (sampler self g2' h1' None None extra_pos_mask extra_neg_mask
                           None (Some b)) (\<lambda>ci2.
               Inr (ci1, ci2)))
           | _ \<Rightarrow> Inl AssertionError)))"

text \<open>Lines 90 and 91: the two direction losses \<open>l1\<close> and \<open>l2\<close>.\<close>

definition forward_losses ::
  "DualBranchContrast \<Rightarrow> mat option \<Rightarrow> mat option \<Rightarrow> mat option \<Rightarrow> mat option
     \<Rightarrow> int list option \<Rightarrow> mat option \<Rightarrow> mat option \<Rightarrow> mat option \<Rightarrow> mat option
     \<Rightarrow> mat option \<Rightarrow> mat option \<Rightarrow> mat option \<Rightarrow> mat option
     \<Rightarrow> error + py_value \<times> py_value" where
  "forward_losses self h1 h2 g1 g2 batch h3 h4 extra_pos_mask extra_neg_mask
       pos_mask1 pos_mask2 neg_mask1 neg_mask2 =
     err_bind (forward_instances self h1 h2 g1 g2 batch h3 h4 extra_pos_mask extra_neg_mask
                 pos_mask1 pos_mask2 neg_mask1 neg_mask2) (\<lambda>(ci1, ci2).
     err_bind (loss self ci1) (\<lambda>l1.
     err_bind (loss self ci2) (\<lambda>l2.
     Inr (l1, l2))))"

text \<open>Line 93, \<open>(l1 + l2) * 0.5\<close>: adding \<open>None\<close> raises \<open>TypeError\<close>.\<close>

definition half_sum :: "py_value \<Rightarrow> py_value \<Rightarrow> error + py_value" where
  "half_sum l1 l2 =
     (case (l1, l2) of
        (Scalar a, Scalar b) \<Rightarrow> Inr (Scalar ((a + b) * (5 / 10)))
      | _ \<Rightarrow> Inl TypeError)"

definition forward ::
  "DualBranchContrast \<Rightarrow> mat option \<Rightarrow> mat option \<Rightarrow> mat option \<Rightarrow> mat option
     \<Rightarrow> int list option \<Rightarrow> mat option \<Rightarrow> mat option \<Rightarrow> mat option \<Rightarrow> mat option
     \<Rightarrow> mat option \<Rightarrow> mat option \<Rightarrow> mat option \<Rightarrow> mat option
     \<Rightarrow> error + py_value" where
  "forward self h1 h2 g1 g2 batch h3 h4 extra_pos_mask extra_neg_mask
       pos_mask1 pos_mask2 neg_mask1 neg_mask2 =
     err_bind (forward_losses self h1 h2 g1 g2 batch h3 h4 extra_pos_mask extra_neg_mask
                 pos_mask1 pos_mask2 neg_mask1 neg_mask2) (\<lambda>(l1, l2). half_sum l1 l2)"

section \<open>Notions used in the statements\<close>

text \<open>
  A tensor given by its entries, \<^term>\<open>table n m g ! i ! j = g i j\<close>; the proofs bring
  every intermediate tensor of a loss into this form.
\<close>

definition table :: "nat \<Rightarrow> nat \<Rightarrow> (nat \<Rightarrow> nat \<Rightarrow> real) \<Rightarrow> mat" where
  "table n m g = map (\<lambda>i. map (\<lambda>j. g i j) [0..<m]) [0..<n]"

text \<open>
  Masks are boolean-valued: every entry is 0 or 1. \<open>every_row_has_one\<close> says that each
  anchor row has at least one marked column, \<open>has_one\<close> that the mask marks at least one
  pair, and \<open>disjoint_masks\<close> that no pair is marked by both masks.
\<close>

definition is_mask :: "mat \<Rightarrow> bool" where
  "is_mask M = list_all (list_all (\<lambda>x. x = 0 \<or> x = 1)) M"


definition has_one :: "mat \<Rightarrow> bool" where
  "has_one M = list_ex (\<lambda>r. 1 \<in> set r) M"





text \<open>
  The Jensen-Shannon loss in the words of the specification, for the dot-product
  discriminator: \<open>E_neg - E_pos\<close>, where \<open>E_pos\<close> is the mean of
  \<open>ln 2 - softplus (- sim)\<close> over the pairs that the positive mask marks, \<open>E_neg\<close> the
  mean of \<open>softplus (- sim) + sim - ln 2\<close> over the pairs that the negative mask marks,
  and \<open>sim\<close> the dot product of the anchor row and the sample row as they are.
\<close>

definition JSD_spec :: "mat \<Rightarrow> mat \<Rightarrow> mat \<Rightarrow> mat \<Rightarrow> real" where
  "JSD_spec A S P N =
     (let pairs = List.product [0..<length A] [0..<length S];
          E_pos = mean (map (\<lambda>(i, j). ln 2 - softplus (- dot (A ! i) (S ! j)))
                          (filter (\<lambda>(i, j). P ! i ! j = 1) pairs));
          E_neg = mean (map (\<lambda>(i, j). softplus (- dot (A ! i) (S ! j)) + dot (A ! i) (S ! j)
                                      - ln 2)
                          (filter (\<lambda>(i, j). N ! i ! j = 1) pairs))
      in E_neg - E_pos)"

section \<open>Tensor lemmas\<close>

lemma err_bind_Inl [simp]: "err_bind (Inl e) f = Inl e"
  by (simp add: err_bind_def)

lemma err_bind_Inr [simp]: "err_bind (Inr x) f = f x"
  by (simp add: err_bind_def)

lemma err_bind_eq_Inr: "err_bind m f = Inr v \<longleftrightarrow> (\<exists>x. m = Inr x \<and> f x = Inr v)"
  by (cases m) simp_all

lemma is_matrix_ncols: "is_matrix n m A \<Longrightarrow> 0 < n \<Longrightarrow> ncols A = m"
  by (cases A) (simp_all add: is_matrix_def ncols_def)

lemma is_matrix_row: "is_matrix n m A \<Longrightarrow> i < n \<Longrightarrow> length (A ! i) = m"
  by (simp add: is_matrix_def list_all_length)

lemma stretch_same: "length xs = n \<Longrightarrow> stretch n xs = xs"
  by (simp add: stretch_def)


lemma mat_op_same:
  assumes "is_matrix n m A" "is_matrix n m B"
  shows "mat_op f A B = Inr (map (\<lambda>i. map (\<lambda>j. f (A ! i ! j) (B ! i ! j)) [0..<m]) [0..<n])"
proof (cases "n = 0")
  case True
  with assms show ?thesis
    by (simp add: is_matrix_def mat_op_def compatible_def broadcast_size_def stretch_def ncols_def)
next
  case False
  then have n: "0 < n" by simp
  have c: "ncols A = m" "ncols B = m" using assms n by (simp_all add: is_matrix_ncols)
  have l: "length A = n" "length B = n" using assms by (simp_all add: is_matrix_def)
  have "map2 (\<lambda>a b. map2 f (stretch m a) (stretch m b)) A B
      = map (\<lambda>i. map (\<lambda>j. f (A ! i ! j) (B ! i ! j)) [0..<m]) [0..<n]"
  proof (rule nth_equalityI)
    show "length (map2 (\<lambda>a b. map2 f (stretch m a) (stretch m b)) A B)
        = length (map (\<lambda>i. map (\<lambda>j. f (A ! i ! j) (B ! i ! j)) [0..<m]) [0..<n])"
      using l by simp
  next
    fix i assume "i < length (map2 (\<lambda>a b. map2 f (stretch m a) (stretch m b)) A B)"
    then have i: "i < n" using l by simp
    have ra: "length (A ! i) = m" and rb: "length (B ! i) = m"
      using assms i by (simp_all add: is_matrix_row)
    have "map2 f (A ! i) (B ! i) = map (\<lambda>j. f (A ! i ! j) (B ! i ! j)) [0..<m]"
      by (rule nth_equalityI) (simp_all add: ra rb)
    then show "map2 (\<lambda>a b. map2 f (stretch m a) (stretch m b)) A B ! i
        = map (\<lambda>i. map (\<lambda>j. f (A ! i ! j) (B ! i ! j)) [0..<m]) [0..<n] ! i"
      using i l by (simp add: stretch_same ra rb)
  qed
  then show ?thesis
    using c l by (simp add: mat_op_def compatible_def broadcast_size_def stretch_same)
qed


lemma table_cong:
  "n = n' \<Longrightarrow> m = m' \<Longrightarrow> (\<And>i j. i < n' \<Longrightarrow> j < m' \<Longrightarrow> g i j = g' i j)
     \<Longrightarrow> table n m g = table n' m' g'"
  by (simp add: table_def)

lemma is_matrix_table: "is_matrix n m (table n m g)"
  by (simp add: is_matrix_def table_def list_all_iff)

lemma table_nth: "i < n \<Longrightarrow> j < m \<Longrightarrow> table n m g ! i ! j = g i j"
  by (simp add: table_def)

lemma table_of_matrix: "is_matrix n m A \<Longrightarrow> A = table n m (\<lambda>i j. A ! i ! j)"
  unfolding table_def
  by (rule nth_equalityI, simp add: is_matrix_def, rule nth_equalityI)
     (simp_all add: is_matrix_def list_all_length)

lemma mat_op_table:
  "mat_op f (table n m g) (table n m h) = Inr (table n m (\<lambda>i j. f (g i j) (h i j)))"
  unfolding mat_op_same [OF is_matrix_table is_matrix_table] table_def [symmetric]
  by (simp add: table_nth cong: table_cong)


lemma mat_map_table: "mat_map f (table n m g) = table n m (\<lambda>i j. f (g i j))"
  by (simp add: mat_map_def table_def)






lemma matmul_t_table:
  assumes "is_matrix n d A" "is_matrix k d B"
  shows "matmul_t A B = Inr (table n k (\<lambda>i j. dot (A ! i) (B ! j)))"
proof -
  have l: "length A = n" "length B = k" using assms by (simp_all add: is_matrix_def)
  have c: "A \<noteq> [] \<and> B \<noteq> [] \<longrightarrow> ncols A = ncols B"
    using assms l by (auto simp: is_matrix_ncols)
  have "map (\<lambda>a. map (dot a) B) A = table n k (\<lambda>i j. dot (A ! i) (B ! j))"
    unfolding table_def
    by (rule nth_equalityI, simp add: l, rule nth_equalityI) (simp_all add: l)
  with c show ?thesis by (auto simp: matmul_t_def)
qed




lemma is_mask_entry:
  "is_mask M \<Longrightarrow> is_matrix n m M \<Longrightarrow> i < n \<Longrightarrow> j < m \<Longrightarrow> M ! i ! j = 0 \<or> M ! i ! j = 1"
  by (simp add: is_mask_def is_matrix_def list_all_length)














lemma sum_all_table: "sum_all (table n m g) = (\<Sum>i\<leftarrow>[0..<n]. \<Sum>j\<leftarrow>[0..<m]. g i j)"
  by (simp add: sum_all_def table_def comp_def)

lemma mat_int_table: "mat_int (table n m g) = table n m (\<lambda>i j. real_of_int (py_int (g i j)))"
  by (simp add: mat_int_def mat_map_table)

lemma softplus_0: "softplus 0 = ln 2"
  by (simp add: softplus_def)

lemma masked_sum_gen:
  assumes "\<And>j. j < m \<Longrightarrow> p j = 1 \<Longrightarrow> F j = G j"
      and "\<And>j. j < m \<Longrightarrow> p j \<noteq> 1 \<Longrightarrow> F j = 0"
  shows "(\<Sum>j\<leftarrow>[0..<m]. F j) = (\<Sum>j\<leftarrow>filter (\<lambda>j. p j = (1::real)) [0..<m]. (G j :: real))"
  using assms
proof (induction m)
  case 0
  show ?case by simp
next
  case (Suc m)
  have "(\<Sum>j\<leftarrow>[0..<m]. F j) = (\<Sum>j\<leftarrow>filter (\<lambda>j. p j = 1) [0..<m]. G j)"
    using Suc.prems by (intro Suc.IH) simp_all
  moreover have "p m = 1 \<Longrightarrow> F m = G m" "p m \<noteq> 1 \<Longrightarrow> F m = 0"
    using Suc.prems by simp_all
  ultimately show ?case by auto
qed

lemma sum_list_product_filter:
  "(\<Sum>i\<leftarrow>xs. \<Sum>j\<leftarrow>filter (\<lambda>j. Q i j) ys. (G i j :: real))
     = (\<Sum>ij\<leftarrow>filter (\<lambda>(i, j). Q i j) (List.product xs ys). case ij of (i, j) \<Rightarrow> G i j)"
  by (induction xs) (simp_all add: filter_map comp_def)

lemma JSD_compute_table:
  assumes "is_matrix n_a d A" "is_matrix n_s d S"
  shows "JSD_compute dot_discriminator
      \<lparr>anchor = A, sample = S, pos_mask = Some (table n_a n_s p),
         neg_mask = Some (table n_a n_s n)\<rparr>
    = Inr (Scalar (
        (\<Sum>i\<leftarrow>[0..<n_a]. \<Sum>j\<leftarrow>[0..<n_s].
            softplus (- (dot (A ! i) (S ! j) * n i j)) + dot (A ! i) (S ! j) * n i j - ln 2)
          / (\<Sum>i\<leftarrow>[0..<n_a]. \<Sum>j\<leftarrow>[0..<n_s]. real_of_int (py_int (n i j)))
        - (\<Sum>i\<leftarrow>[0..<n_a]. \<Sum>j\<leftarrow>[0..<n_s].
            ln 2 - softplus (- dot (A ! i) (S ! j) * p i j))
          / (\<Sum>i\<leftarrow>[0..<n_a]. \<Sum>j\<leftarrow>[0..<n_s]. real_of_int (py_int (p i j)))))"
  unfolding JSD_compute_def unpack_def dot_discriminator_def
  by (simp add: matmul_t_table [OF assms] mat_map_table mat_op_table sum_all_table
        mat_int_table)

lemma masked_double_sum:
  assumes "is_matrix n m M" "is_mask M"
    and one: "\<And>i j. i < n \<Longrightarrow> j < m \<Longrightarrow> M ! i ! j = 1 \<Longrightarrow> F i j = G i j"
    and zero: "\<And>i j. i < n \<Longrightarrow> j < m \<Longrightarrow> M ! i ! j = 0 \<Longrightarrow> F i j = 0"
  shows "(\<Sum>i\<leftarrow>[0..<n]. \<Sum>j\<leftarrow>[0..<m]. F i j)
    = (\<Sum>ij\<leftarrow>filter (\<lambda>(i, j). M ! i ! j = 1) (List.product [0..<n] [0..<m]).
         case ij of (i, j) \<Rightarrow> (G i j :: real))"
proof -
  have "map (\<lambda>i. \<Sum>j\<leftarrow>[0..<m]. F i j) [0..<n]
      = map (\<lambda>i. \<Sum>j\<leftarrow>filter (\<lambda>j. M ! i ! j = 1) [0..<m]. G i j) [0..<n]"
  proof (rule map_cong [OF refl])
    fix i assume "i \<in> set [0..<n]"
    then have i: "i < n" by simp
    show "(\<Sum>j\<leftarrow>[0..<m]. F i j) = (\<Sum>j\<leftarrow>filter (\<lambda>j. M ! i ! j = 1) [0..<m]. G i j)"
    proof (rule masked_sum_gen)
      fix j assume "j < m" "M ! i ! j = 1"
      then show "F i j = G i j" using one i by simp
    next
      fix j assume j: "j < m" and "M ! i ! j \<noteq> 1"
      then have "M ! i ! j = 0" using is_mask_entry [OF assms(2,1) i j] by simp
      then show "F i j = 0" using zero i j by simp
    qed
  qed
  then show ?thesis
    by (simp only: sum_list_product_filter [symmetric])
qed

lemma mask_double_count:
  assumes "is_matrix n m M" "is_mask M"
  shows "(\<Sum>i\<leftarrow>[0..<n]. \<Sum>j\<leftarrow>[0..<m]. real_of_int (py_int (M ! i ! j)))
    = real (length (filter (\<lambda>(i, j). M ! i ! j = 1) (List.product [0..<n] [0..<m])))"
proof -
  have "(\<Sum>i\<leftarrow>[0..<n]. \<Sum>j\<leftarrow>[0..<m]. real_of_int (py_int (M ! i ! j)))
    = (\<Sum>ij\<leftarrow>filter (\<lambda>(i, j). M ! i ! j = 1) (List.product [0..<n] [0..<m]).
         case ij of (i, j) \<Rightarrow> 1)"
    by (rule masked_double_sum [OF assms]) (simp_all add: py_int_def)
  then show ?thesis by (simp add: case_prod_beta sum_list_triv)
qed

section \<open>Properties of get_split\<close>

text \<open>
  Claim C9. Whenever \<open>train_ratio + test_ratio\<close> is at least 1 (for instance 0.6 and
  0.5), \<open>get_split\<close> fails with the assertion error, for every \<open>num_samples\<close>, every
  \<open>num_splits\<close> and every random source: no size is computed, no permutation is drawn and
  no partial result comes back.
\<close>

theorem get_split_rejects_ratio_sum:
  "1 \<le> train_ratio + test_ratio \<Longrightarrow>
     get_split draws num_samples num_splits train_ratio test_ratio = Inl AssertionError"
  by (simp add: get_split_def)

theorem get_split_rejects_ratio_sum_witness:
  "(1::real) \<le> 6 / 10 + 5 / 10 \<and>
     get_split (\<lambda>i. [2, 0, 1]) 3 1 (6 / 10) (5 / 10) = Inl AssertionError"
  using get_split_rejects_ratio_sum [of "6 / 10" "5 / 10" "\<lambda>i. [2, 0, 1]" 3 1] by simp

text \<open>
  Claim C5. The docstring's example, \<open>get_split(10, num_splits=1, train_ratio=0.5,
  test_ratio=0.4)\<close>, on the permutation the docstring shows: the code returns one
  mapping, with five indices under \<open>train\<close>, but four under \<open>valid\<close> and one under
  \<open>test\<close>, where the docstring and the specification have one under \<open>valid\<close> and
  four under \<open>test\<close>.
\<close>

theorem get_split_docstring_example:
  "get_split (\<lambda>i. [3, 4, 0, 1, 2, 5, 7, 6, 8, 9]) 10 1 (5 / 10) (4 / 10) =
     Inr (Single [(''train'', [3, 4, 0, 1, 2]), (''valid'', [5, 7, 6, 8]), (''test'', [9])])"
  by (simp add: get_split_def randperm_def py_int_def slice_to_def slice_between_def
        slice_from_def slice_bound_def)

text \<open>
  The sizes do not depend on the permutation drawn: whatever ten indices
  \<open>torch.randperm(10)\<close> returns, the call splits them, in order, into five under
  \<open>train\<close>, four under \<open>valid\<close> and one under \<open>test\<close>.
\<close>

lemma get_split_example_sizes:
  assumes "length (draws 0) = 10"
  shows "\<exists>tr va te.
           get_split draws 10 1 (5 / 10) (4 / 10)
             = Inr (Single [(''train'', tr), (''valid'', va), (''test'', te)])
           \<and> length tr = 5 \<and> length va = 4 \<and> length te = 1 \<and> tr @ va @ te = draws 0"
proof -
  have d: "drop 9 (draws 0) = drop 4 (drop 5 (draws 0))" by simp
  have "take 4 (drop 5 (draws 0)) @ drop 9 (draws 0) = drop 5 (draws 0)"
    unfolding d by (rule append_take_drop_id)
  then have "take 5 (draws 0) @ drop 5 (take 9 (draws 0)) @ drop 9 (draws 0) = draws 0"
    by (simp add: drop_take)
  then show ?thesis
    using assms
    by (simp add: get_split_def randperm_def py_int_def slice_to_def slice_between_def
          slice_from_def slice_bound_def)
qed

section \<open>Properties of the evaluator constructors\<close>

text \<open>
  Claim C10. No \<open>SVMEvaluator\<close> can be constructed: whatever the arguments, the call of
  the superclass constructor passes the keywords \<open>metrics\<close>, \<open>params\<close>,
  \<open>grid_search_scoring\<close> and \<open>grid_search_params\<close>, none of which is a parameter of
  \<open>BaseSKLearnEvaluator.__init__\<close>, so the constructor raises \<open>TypeError\<close>.
\<close>

theorem SVMEvaluator_init_raises:
  "SVMEvaluator_init metrics split linear' params param_grid grid_search_scoring
     grid_search_params = Inl TypeError"
  by (simp add: SVMEvaluator_init_def BaseSKLearnEvaluator_init_def bind_keywords_def Let_def)

section \<open>Properties of the InfoNCE losses\<close>






text \<open>
  Claim C1. \<open>DebiasedInfoNCE.compute\<close> on two anchor rows with identity positives and
  complementary negatives (every row has one positive and one negative): the call raises
  \<open>IndexError\<close> at line 84, where the one-dimensional tensor \<open>pos + ng\<close> is summed along
  dimension 1, and returns no loss.
\<close>

theorem DebiasedInfoNCE_compute_raises:
  "DebiasedInfoNCE_compute (1 / 2) (1 / 10)
     \<lparr>anchor = [[1, 0], [0, 1]], sample = [[1, 0], [0, 1]],
        pos_mask = Some [[1, 0], [0, 1]], neg_mask = Some [[0, 1], [1, 0]]\<rparr>
   = Inl IndexError"
  by (simp add: DebiasedInfoNCE_compute_def unpack_def similarity_def matmul_t_def
        normalize_def normalize_row_def ncols_def dot_def mat_map_def mat_op_def mat_int_def
        py_int_def sum_all_def sum_dim1_def vec_op_def compatible_def broadcast_size_def
        stretch_def vec_sum_dim1_keepdim_def)

text \<open>
  The same holds for every input: no call of \<open>DebiasedInfoNCE.compute\<close> returns a value.
\<close>

lemma DebiasedInfoNCE_compute_never_returns:
  "DebiasedInfoNCE_compute tau tau_plus ci \<noteq> Inr v"
  unfolding DebiasedInfoNCE_compute_def unpack_def Let_def vec_sum_dim1_keepdim_def
  by (auto simp: err_bind_eq_Inr split: option.splits if_splits)

text \<open>
  The end of the method has the opposite sign of the end of \<open>InfoNCE.compute\<close>: on the
  same similarities, row sums and positive mask, one returns \<open>l\<close> exactly when the other
  returns \<open>- l\<close>.
\<close>

lemma DebiasedInfoNCE_reduce_sign:
  "DebiasedInfoNCE_reduce sim row_sums P = Inr (Scalar l)
     \<longleftrightarrow> InfoNCE_reduce sim row_sums P = Inr (Scalar (- l))"
  unfolding DebiasedInfoNCE_reduce_def InfoNCE_reduce_def
  by (auto simp: err_bind_eq_Inr)

text \<open>
  Claim C2. \<open>RobustInfoNCE.compute\<close>, \<open>DebiasedInfoNCE.compute_default_positive\<close> and
  \<open>HardnessInfoNCE.compute_default_positive\<close> raise nothing: for every input each of them
  returns \<open>None\<close>.
\<close>

theorem unimplemented_methods_return_None:
  "RobustInfoNCE_compute tau p q lambda' ci = Inr NoneValue
   \<and> DebiasedInfoNCE_compute_default_positive tau tau_plus ci = Inr NoneValue
   \<and> HardnessInfoNCE_compute_default_positive tau tau_plus beta ci = Inr NoneValue"
  by (simp add: RobustInfoNCE_compute_def DebiasedInfoNCE_compute_default_positive_def
        HardnessInfoNCE_compute_default_positive_def)

text \<open>
  Claim C7. For every \<open>ContrastInstance\<close>, \<open>ReweightedInfoNCE.compute_default_positive\<close>
  raises \<open>RuntimeError\<close>; it computes nothing and returns no value.
\<close>

theorem ReweightedInfoNCE_compute_default_positive_raises:
  "ReweightedInfoNCE_compute_default_positive tau ci = Inl RuntimeError"
  by (simp add: ReweightedInfoNCE_compute_default_positive_def)

section \<open>Properties of the Jensen-Shannon loss\<close>

text \<open>
  Claim C6. For an anchor of shape \<open>[n_a, d]\<close>, a sample of shape \<open>[n_s, d]\<close> and 0/1
  masks of shape \<open>[n_a, n_s]\<close> that each mark at least one pair, \<open>JSD.compute\<close> with the
  default discriminator returns \<open>E_neg - E_pos\<close>: \<open>E_pos\<close> is the mean of
  \<open>ln 2 - softplus (- sim)\<close> over the positive pairs and \<open>E_neg\<close> the mean of
  \<open>softplus (- sim) + sim - ln 2\<close> over the negative pairs, with \<open>sim\<close> the raw dot
  product. A pair that neither mask marks enters neither mean.
\<close>

theorem JSD_compute_formula:
  assumes shapes: "is_matrix n_a d A" "is_matrix n_s d S"
      "is_matrix n_a n_s P" "is_matrix n_a n_s N"
    and masks: "is_mask P" "is_mask N"
    and ones: "has_one P" "has_one N"
  shows "JSD_compute dot_discriminator
           \<lparr>anchor = A, sample = S, pos_mask = Some P, neg_mask = Some N\<rparr>
    = Inr (Scalar (JSD_spec A S P N))"
proof -
  have la: "length A = n_a" and ls: "length S = n_s"
    using shapes by (simp_all add: is_matrix_def)
  have pos: "(\<Sum>i\<leftarrow>[0..<n_a]. \<Sum>j\<leftarrow>[0..<n_s].
            ln 2 - softplus (- dot (A ! i) (S ! j) * P ! i ! j))
    = (\<Sum>ij\<leftarrow>filter (\<lambda>(i, j). P ! i ! j = 1) (List.product [0..<n_a] [0..<n_s]).
         case ij of (i, j) \<Rightarrow> ln 2 - softplus (- dot (A ! i) (S ! j)))"
    by (rule masked_double_sum [OF shapes(3) masks(1)]) (simp_all add: softplus_0)
  have neg: "(\<Sum>i\<leftarrow>[0..<n_a]. \<Sum>j\<leftarrow>[0..<n_s].
            softplus (- (dot (A ! i) (S ! j) * N ! i ! j)) + dot (A ! i) (S ! j) * N ! i ! j
              - ln 2)
    = (\<Sum>ij\<leftarrow>filter (\<lambda>(i, j). N ! i ! j = 1) (List.product [0..<n_a] [0..<n_s]).
         case ij of (i, j) \<Rightarrow>
           softplus (- dot (A ! i) (S ! j)) + dot (A ! i) (S ! j) - ln 2)"
    by (rule masked_double_sum [OF shapes(4) masks(2)]) (simp_all add: softplus_0)
  have "JSD_compute dot_discriminator
           \<lparr>anchor = A, sample = S, pos_mask = Some P, neg_mask = Some N\<rparr>
    = Inr (Scalar (
        (\<Sum>i\<leftarrow>[0..<n_a]. \<Sum>j\<leftarrow>[0..<n_s].
            softplus (- (dot (A ! i) (S ! j) * N ! i ! j)) + dot (A ! i) (S ! j) * N ! i ! j
              - ln 2)
          / (\<Sum>i\<leftarrow>[0..<n_a]. \<Sum>j\<leftarrow>[0..<n_s]. real_of_int (py_int (N ! i ! j)))
        - (\<Sum>i\<leftarrow>[0..<n_a]. \<Sum>j\<leftarrow>[0..<n_s].
            ln 2 - softplus (- dot (A ! i) (S ! j) * P ! i ! j))
          / (\<Sum>i\<leftarrow>[0..<n_a]. \<Sum>j\<leftarrow>[0..<n_s]. real_of_int (py_int (P ! i ! j)))))"
    using JSD_compute_table [OF shapes(1,2), of "\<lambda>i j. P ! i ! j" "\<lambda>i j. N ! i ! j"]
      table_of_matrix [OF shapes(3), symmetric] table_of_matrix [OF shapes(4), symmetric]
    by simp
  then show ?thesis
    unfolding pos neg mask_double_count [OF shapes(3) masks(1)]
      mask_double_count [OF shapes(4) masks(2)]
    by (simp add: JSD_spec_def la ls mean_def Let_def)
qed

theorem JSD_compute_formula_witness:
  "JSD_compute dot_discriminator
     \<lparr>anchor = [[1, 0]], sample = [[1, 0], [0, 1], [1, 1]],
        pos_mask = Some [[1, 0, 0]], neg_mask = Some [[0, 1, 0]]\<rparr>
   = Inr (Scalar (JSD_spec [[1, 0]] [[1, 0], [0, 1], [1, 1]] [[1, 0, 0]] [[0, 1, 0]]))
   \<and> JSD_spec [[1, 0]] [[1, 0], [0, 1], [1, 1]] [[1, 0, 0]] [[0, 1, 0]]
     = ln (1 + exp (- 1)) - ln 2"
proof
  show "JSD_compute dot_discriminator
     \<lparr>anchor = [[1, 0]], sample = [[1, 0], [0, 1], [1, 1]],
        pos_mask = Some [[1, 0, 0]], neg_mask = Some [[0, 1, 0]]\<rparr>
   = Inr (Scalar (JSD_spec [[1, 0]] [[1, 0], [0, 1], [1, 1]] [[1, 0, 0]] [[0, 1, 0]]))"
    by (rule JSD_compute_formula [of 1 2 _ 3])
       (simp_all add: is_matrix_def is_mask_def has_one_def)
  show "JSD_spec [[1, 0]] [[1, 0], [0, 1], [1, 1]] [[1, 0, 0]] [[0, 1, 0]]
     = ln (1 + exp (- 1)) - ln 2"
    by (simp add: JSD_spec_def mean_def dot_def softplus_def upt_rec [of 0] Let_def)
qed

section \<open>Properties of DualBranchContrast\<close>

text \<open>
  Claim C8. In mode \<open>L2L\<close> with \<open>h1 = h2\<close>, no extra masks and no masks per direction,
  whenever the sampler yields an instance on \<open>(h, h)\<close> and the loss yields a number \<open>l\<close>
  on it, the two direction losses computed by \<open>forward\<close> are both \<open>l\<close>, and \<open>forward\<close>
  returns their half sum \<open>(l1 + l2) * 0.5\<close>. This holds for every sampler, the default
  sampler among them.
\<close>

theorem forward_L2L_symmetric:
  assumes "mode self = ''L2L''"
    and "sampler self h h None None None None None None = Inr ci"
    and "loss self ci = Inr (Scalar l)"
  shows "forward_losses self (Some h) (Some h) g1 g2 batch h3 h4 None None None None None None
           = Inr (Scalar l, Scalar l)
       \<and> forward self (Some h) (Some h) g1 g2 batch h3 h4 None None None None None None
           = Inr (Scalar ((l + l) * (5 / 10)))"
  using assms by (simp add: forward_def forward_losses_def forward_instances_def half_sum_def)

theorem forward_L2L_symmetric_witness:
  "forward_losses
     \<lparr>loss = InfoNCE_compute_default_positive 1, mode = ''L2L'',
        sampler = (\<lambda>a s pm nm ep en ns b.
                     Inr \<lparr>anchor = a, sample = s, pos_mask = pm, neg_mask = nm\<rparr>),
        default_sampler = True\<rparr>
     (Some [[1, 0], [0, 1]]) (Some [[1, 0], [0, 1]])
     None None None None None None None None None None None
   = Inr (Scalar (- ln (exp 1 / (exp 1 + 1))), Scalar (- ln (exp 1 / (exp 1 + 1))))
   \<and> forward
     \<lparr>loss = InfoNCE_compute_default_positive 1, mode = ''L2L'',
        sampler = (\<lambda>a s pm nm ep en ns b.
                     Inr \<lparr>anchor = a, sample = s, pos_mask = pm, neg_mask = nm\<rparr>),
        default_sampler = True\<rparr>
     (Some [[1, 0], [0, 1]]) (Some [[1, 0], [0, 1]])
     None None None None None None None None None None None
   = Inr (Scalar ((- ln (exp 1 / (exp 1 + 1)) + - ln (exp 1 / (exp 1 + 1))) * (5 / 10)))"
  by (rule forward_L2L_symmetric
       [where ci = "\<lparr>anchor = [[1, 0], [0, 1]], sample = [[1, 0], [0, 1]],
                       pos_mask = None, neg_mask = None\<rparr>"])
     (simp_all add: InfoNCE_compute_default_positive_def similarity_def matmul_t_def
        normalize_def normalize_row_def ncols_def dot_def mat_map_def diag_def
        sum_dim1_def vec_op_def compatible_def broadcast_size_def stretch_def mean_def)

end
